theory Spec2Isabelle
  imports Main
begin

section \<open>Package secrets (internal/tools/secrets/secrets.go)\<close>

subsection \<open>The process environment\<close>

text \<open>
  The process environment is a finite table from variable names to values. Go strings are
  byte sequences, and so are HOL strings. \<open>os.Getenv\<close> returns the empty string both for a
  variable that is unset and for one that is set to the empty string.
\<close>

type_synonym environ = "string \<rightharpoonup> string"

definition Getenv :: "environ \<Rightarrow> string \<Rightarrow> string" where
  "Getenv env key = (case env key of None \<Rightarrow> [] | Some v \<Rightarrow> v)"

text \<open>
  \<open>os.Setenv\<close> of the Go standard library on Unix (\<open>syscall.Setenv\<close>): the call is
  refused with \<open>EINVAL\<close> when the key is empty, when the key holds an \<open>=\<close> or a NUL byte,
  and when the value holds a NUL byte; otherwise the variable is bound to the value.
\<close>

datatype errno = EINVAL

definition Setenv :: "string \<Rightarrow> string \<Rightarrow> environ \<Rightarrow> errno + environ" where
  "Setenv key val env =
     (if key = [] then Inl EINVAL
      else if CHR ''='' \<in> set key \<or> CHR 0x00 \<in> set key then Inl EINVAL
      else if CHR 0x00 \<in> set val then Inl EINVAL
      else Inr (env(key \<mapsto> val)))"

subsection \<open>LoadConfig\<close>

text \<open>
  The two failures of \<open>LoadConfig\<close>: \<open>errors.New("ACCESS_TOKEN and ORGANIZATION_ID must be
  set")\<close>, and \<open>fmt.Errorf("invalid uuid: %w", err)\<close>, which wraps the error of \<open>uuid.Parse\<close>.
\<close>

datatype 'e config_error = MustBeSet | InvalidUuid 'e

text \<open>
  \<open>uuid.Parse\<close> belongs to the module \<open>github.com/google/uuid\<close>; it is a parameter of the
  model, returning either its error or the parsed identifier. The Go function returns the
  triple \<open>(accessToken, organizationID, err)\<close>, with \<open>None\<close> for the \<open>nil\<close> error.
\<close>

definition LoadConfig ::
  "(string \<Rightarrow> 'e + 'u) \<Rightarrow> environ \<Rightarrow> string \<times> string \<times> 'e config_error option" where
  "LoadConfig uuid_Parse env =
     (let accessToken = Getenv env ''ACCESS_TOKEN'';
          organizationID = Getenv env ''ORGANIZATION_ID''
      in if accessToken = [] \<or> organizationID = [] then ([], [], Some MustBeSet)
         else (case uuid_Parse organizationID of
                 Inl err \<Rightarrow> ([], [], Some (InvalidUuid err))
               | Inr _ \<Rightarrow> (accessToken, organizationID, None)))"

subsection \<open>SetEnvironmentVariables\<close>

text \<open>
  Of a \<open>bws.SecretResponse\<close> the function reads the fields \<open>Key\<close> and \<open>Value\<close> only, and of
  the \<open>bws.SecretsResponse\<close> the slice \<open>Data\<close>.
\<close>

record Secret =
  Key :: string
  Value :: string

record SecretsResponse =
  Data :: "Secret list"

text \<open>\<open>fmt.Errorf("error setting env var for key %s: %w", secret.Key, err)\<close>\<close>

datatype secrets_error = SetenvFailed string errno

text \<open>
  The body of the \<open>for ... range secrets.Data\<close> loop: a secret with an empty key is skipped
  (\<open>continue\<close>), the first failing \<open>os.Setenv\<close> ends the function with its error, and the
  end of the slice returns \<open>nil\<close>. The environment is threaded through the iterations and
  returned with the error.
\<close>

fun set_each :: "Secret list \<Rightarrow> environ \<Rightarrow> secrets_error option \<times> environ" where
  "set_each [] env = (None, env)"
| "set_each (secret # rest) env =
     (if Key secret = [] then set_each rest env
      else (case Setenv (Key secret) (Value secret) env of
              Inl err \<Rightarrow> (Some (SetenvFailed (Key secret) err), env)
            | Inr env' \<Rightarrow> set_each rest env'))"

text \<open>
  The argument is a pointer: \<open>secrets.Data\<close> on a nil pointer panics, which is the result
  \<open>None\<close> here.
\<close>

definition SetEnvironmentVariables ::
  "SecretsResponse option \<Rightarrow> environ \<Rightarrow> (secrets_error option \<times> environ) option" where
  "SetEnvironmentVariables secrets env =
     (case secrets of
        None \<Rightarrow> None
      | Some response \<Rightarrow> Some (set_each (Data response) env))"

text \<open>
  Two notions for the statements about the loop: a secret that \<open>os.Setenv\<close> accepts, and the
  binding such a secret adds to the environment.
\<close>

definition settable :: "Secret \<Rightarrow> bool" where
  "settable s \<longleftrightarrow>
     Key s \<noteq> [] \<and> CHR ''='' \<notin> set (Key s) \<and> CHR 0x00 \<notin> set (Key s) \<and> CHR 0x00 \<notin> set (Value s)"

definition binding :: "Secret \<Rightarrow> string \<times> string" where
  "binding s = (Key s, Value s)"

section \<open>The build targets (magefiles/magefile.go)\<close>

subsection \<open>Path functions of the Go standard library, on a Unix host\<close>

text \<open>
  \<open>filepath.Join\<close> joins the elements from the first non-empty one on with the separator
  and cleans the result. \<open>filepath.Clean\<close> reads the path byte by byte and writes a buffer:
  it drops empty elements and \<open>.\<close> elements, lets a \<open>..\<close> element remove the element written
  before it (never going above the root or above a leading run of \<open>..\<close> elements, whose end
  is the index \<open>dotdot\<close>), and copies every other element. On Unix the separator is the
  slash, there is no volume name, and \<open>FromSlash\<close> changes nothing.
\<close>

definition Separator :: char where
  "Separator = CHR ''/''"

definition IsPathSeparator :: "char \<Rightarrow> bool" where
  "IsPathSeparator c = (c = Separator)"

fun strings_Join :: "string list \<Rightarrow> string \<Rightarrow> string" where
  "strings_Join [] sep = []"
| "strings_Join [e] sep = e"
| "strings_Join (e # es) sep = e @ sep @ strings_Join es sep"

text \<open>
  The backtracking of a \<open>..\<close> element, entered with \<open>out.w\<close> already decremented:
  \<open>for out.w > dotdot && !IsPathSeparator(out.index(out.w)) { out.w-- }\<close>.
\<close>

fun backtrack :: "string \<Rightarrow> nat \<Rightarrow> nat \<Rightarrow> nat" where
  "backtrack buf dotdot 0 = 0"
| "backtrack buf dotdot (Suc w) =
     (if Suc w > dotdot \<and> \<not> IsPathSeparator (buf ! Suc w) then backtrack buf dotdot w
      else Suc w)"

text \<open>
  The main loop of \<open>Clean\<close>: the second argument is the unread rest of the path, the third
  the buffer written so far (\<open>out.w\<close> is its length).
\<close>

function clean_loop :: "bool \<Rightarrow> string \<Rightarrow> string \<Rightarrow> nat \<Rightarrow> string" where
  "clean_loop rooted [] out dotdot = out"
| "clean_loop rooted (c # cs) out dotdot =
     (if IsPathSeparator c then clean_loop rooted cs out dotdot
      else if c = CHR ''.'' \<and> (cs = [] \<or> IsPathSeparator (hd cs)) then
        clean_loop rooted cs out dotdot
      else if c = CHR ''.'' \<and> hd cs = CHR ''.'' \<and> (tl cs = [] \<or> IsPathSeparator (hd (tl cs))) then
        (if length out > dotdot then
           clean_loop rooted (tl cs) (take (backtrack out dotdot (length out - 1)) out) dotdot
         else if \<not> rooted then
           (let out' = (if length out > 0 then out @ [Separator] else out) @ ''..''
            in clean_loop rooted (tl cs) out' (length out'))
         else clean_loop rooted (tl cs) out dotdot)
      else
        (let out' = (if rooted \<and> length out \<noteq> 1 \<or> \<not> rooted \<and> length out \<noteq> 0
                     then out @ [Separator] else out)
         in clean_loop rooted (dropWhile (\<lambda>x. \<not> IsPathSeparator x) (c # cs))
              (out' @ takeWhile (\<lambda>x. \<not> IsPathSeparator x) (c # cs)) dotdot))"
  by pat_completeness auto
termination
proof (relation "measure (\<lambda>(rooted, path, out, dotdot). length path)")
  show "wf (measure (\<lambda>(rooted, path, out, dotdot). length path))"
    by simp
next
  fix rooted :: bool and c :: char and cs out x :: string and dotdot :: nat
  assume "\<not> IsPathSeparator c"
  then show "((rooted, dropWhile (\<lambda>x. \<not> IsPathSeparator x) (c # cs),
               x @ takeWhile (\<lambda>x. \<not> IsPathSeparator x) (c # cs), dotdot),
              rooted, c # cs, out, dotdot)
             \<in> measure (\<lambda>(rooted, path, out, dotdot). length path)"
    using length_dropWhile_le [of "\<lambda>x. \<not> IsPathSeparator x" cs] by simp
qed (auto intro: le_imp_less_Suc)

definition Clean :: "string \<Rightarrow> string" where
  "Clean path =
     (if path = [] then ''.''
      else (let rooted = IsPathSeparator (hd path);
                out = (if rooted then clean_loop True (tl path) [Separator] 1
                       else clean_loop False path [] 0)
            in if out = [] then ''.'' else out))"

definition Join :: "string list \<Rightarrow> string" where
  "Join elem =
     (case dropWhile (\<lambda>e. e = []) elem of
        [] \<Rightarrow> []
      | es \<Rightarrow> Clean (strings_Join es [Separator]))"

subsection \<open>The build helper\<close>

definition goFiles :: string where
  "goFiles = ''./cmd''"

definition binaryName :: string where
  "binaryName = ''lrag''"

definition binDir :: string where
  "binDir = ''.builds''"

definition appData :: string where
  "appData = ''./app_data''"

text \<open>
  What \<open>build\<close> does to the world, in order: it creates the output directory, runs the Go
  tool with an environment, and prints a line. The mode \<open>0755\<close> is 493.
\<close>

datatype effect =
    MkdirAll string nat
  | RunWith "string \<rightharpoonup> string" string "string list"
  | Printf string

text \<open>
  \<open>fmt.Errorf("failed to create bin directory: %w", err)\<close> and
  \<open>fmt.Errorf("build failed for %s/%s: %w", goos, goarch, err)\<close>
\<close>

datatype 'e build_error = MkdirFailed 'e | BuildFailed string string 'e

text \<open>
  Whether \<open>os.MkdirAll\<close> and \<open>sh.RunWith\<close> fail is decided outside the program: the two are
  parameters that answer with an error or with \<open>None\<close>. The result is the returned error
  and the effects performed.
\<close>

definition build ::
  "(string \<Rightarrow> nat \<Rightarrow> 'e option) \<Rightarrow>
   ((string \<rightharpoonup> string) \<Rightarrow> string \<Rightarrow> string list \<Rightarrow> 'e option) \<Rightarrow>
   string \<Rightarrow> string \<Rightarrow> 'e build_error option \<times> effect list" where
  "build os_MkdirAll sh_RunWith goos goarch =
     (case os_MkdirAll binDir 493 of
        Some err \<Rightarrow> (Some (MkdirFailed err), [MkdirAll binDir 493])
      | None \<Rightarrow>
          (let output = Join [binDir, binaryName @ ''_'' @ goos @ ''_'' @ goarch];
               output = (if goos = ''windows'' then output @ ''.exe'' else output);
               env = [''GOOS'' \<mapsto> goos, ''GOARCH'' \<mapsto> goarch, ''CGO_ENABLED'' \<mapsto> ''0''];
               args = [''build'', ''-ldflags=-s -w'', ''-o'', output, goFiles @ ''/cli'']
           in (case sh_RunWith env ''go'' args of
                 Some err \<Rightarrow>
                   (Some (BuildFailed goos goarch err),
                    [MkdirAll binDir 493, RunWith env ''go'' args])
               | None \<Rightarrow>
                   (None,
                    [MkdirAll binDir 493, RunWith env ''go'' args,
                     Printf (''Successfully built '' @ output @ [CHR 0x0A])]))))"

section \<open>The demo program (main.go)\<close>

subsection \<open>The composed store\<close>

text \<open>
  \<open>type store struct { storage.Neo4J; storage.Chromem; storage.Bolt }\<close>: three embedded
  fields, named after their types, and neither another field nor a method of the struct's
  own. A struct type is the list of its members: each field and method that the type
  declares (depth 0) or reaches through its embedded fields (the depth in the embedded type
  plus one). A method has a value receiver or a pointer receiver.
\<close>

datatype member_kind = Field | Method | PointerMethod












subsection \<open>The handler configuration\<close>

text \<open>
  The composite literal \<open>handler.Default{...}\<close> of \<open>main\<close>, as its keyed elements. A field
  that a Go composite literal does not name has the zero value of its type.
  \<open>3 * time.Second\<close> is a \<open>time.Duration\<close>, a number of nanoseconds.
\<close>

datatype go_value =
    IntV int
  | StringsV "string list"
  | DurationV int
  | StructV "(string \<times> go_value) list"

definition main_h :: "(string \<times> go_value) list" where
  "main_h =
     [(''ChunkMaxTokenSize'', IntV 1500),
      (''EntityTypes'',
         StringsV [''character'', ''organization'', ''location'', ''time period'', ''object'',
                   ''theme'', ''event'']),
      (''Config'',
         StructV [(''MaxRetries'', IntV 5),
                  (''BackoffDuration'', DurationV (3 * 1000000000)),
                  (''ConcurrencyCount'', IntV 5)])]"

text \<open>
  The settings a literal supplies: its keys, a nested struct literal counting for the keys
  it names in turn.
\<close>

definition supplied :: "(string \<times> go_value) list \<Rightarrow> string list" where
  "supplied lit =
     concat (map (\<lambda>(k, v). case v of StructV inner \<Rightarrow> map fst inner | _ \<Rightarrow> [k]) lit)"

text \<open>The selector \<open>h.Config.MaxRetries\<close>.\<close>

definition Config_MaxRetries :: "(string \<times> go_value) list \<Rightarrow> int" where
  "Config_MaxRetries lit =
     (case map_of lit ''Config'' of
        Some (StructV inner) \<Rightarrow> (case map_of inner ''MaxRetries'' of Some (IntV n) \<Rightarrow> n | _ \<Rightarrow> 0)
      | _ \<Rightarrow> 0)"

section \<open>The ingestion orchestrator\<close>

text \<open>
  Modelled from the spec: the orchestrator behind \<open>lrag.Insert\<close> (the chunker, the
  extraction with its retry loop, the merge and the store writes of
  \<open>github.com/MegaGrindStone/go-light-rag\<close> and its \<open>handler.Default\<close>) is imported by
  \<open>main.go\<close> and is not among the source files. The definitions of this section follow
  sections 4.1, 4.3, 7 and 9 of the specification, not code.
\<close>

record IngestConfig =
  ChunkMaxTokenSize :: nat
  OverlapTokens :: nat
  EntityTypes :: "string list"
  MaxRetries :: nat
  BackoffDuration :: nat
  ConcurrencyCount :: nat

text \<open>
  Section 7: \<open>InvalidConfig\<close>, \<open>ExtractionFailed\<close> (with the failing chunks) and
  \<open>StoreWriteFailed\<close> (with the name of the store).
\<close>

datatype 'c ingest_error = InvalidConfig | ExtractionFailed "'c list" | StoreWriteFailed string

text \<open>
  Section 4.1: \<open>Split\<close> fails with \<open>InvalidConfig\<close> if \<open>overlapTokens \<ge> maxTokens\<close>. The
  specification does not fix the chunk boundaries; \<open>window\<close> stands for them.
\<close>

definition Split ::
  "('d \<Rightarrow> nat \<Rightarrow> nat \<Rightarrow> 'c list) \<Rightarrow> 'd \<Rightarrow> nat \<Rightarrow> nat \<Rightarrow> 'c ingest_error + 'c list" where
  "Split window doc maxTokens overlapTokens =
     (if overlapTokens \<ge> maxTokens then Inl InvalidConfig
      else Inr (window doc maxTokens overlapTokens))"

text \<open>
  Section 4.3, step 3, and section 9: an explicit loop with an attempt counter. The
  extraction of a chunk is attempted; on \<open>ExtractionFailed\<close> (\<open>None\<close>) it is retried, up to
  \<open>MaxRetries\<close> times, and the failure of the last retry is final. \<open>attempt k\<close> is the outcome
  of the call made after \<open>k\<close> failures; the wait between two attempts changes no outcome and
  is left out.
\<close>

function extract_with_retry :: "(nat \<Rightarrow> 'x option) \<Rightarrow> nat \<Rightarrow> nat \<Rightarrow> 'x option" where
  "extract_with_retry attempt maxRetries k =
     (case attempt k of
        Some x \<Rightarrow> Some x
      | None \<Rightarrow>
          (if k < maxRetries then extract_with_retry attempt maxRetries (Suc k) else None))"
  by pat_completeness auto
termination
  by (relation "measure (\<lambda>(attempt, maxRetries, k). maxRetries - k)") auto

text \<open>
  Step 2 and the end of step 3: every chunk is extracted with its own retry budget, and
  one chunk that exhausts it aborts the whole call, the error naming the failing chunks.
  The worker pool decides when a chunk is processed, not what its attempts return, so the
  chunks are taken in order here.
\<close>

definition extract_all ::
  "('c \<Rightarrow> nat \<Rightarrow> 'x option) \<Rightarrow> nat \<Rightarrow> 'c list \<Rightarrow> 'c list + 'x list" where
  "extract_all llm maxRetries chunks =
     (case those (map (\<lambda>c. extract_with_retry (llm c) maxRetries 0) chunks) of
        Some xs \<Rightarrow> Inr xs
      | None \<Rightarrow> Inl (filter (\<lambda>c. extract_with_retry (llm c) maxRetries 0 = None) chunks))"

text \<open>
  Steps 1 to 5. \<open>merge\<close> is the merge of step 4; \<open>write\<close> stands for the three store writes
  of step 5 and answers with the name of a store that failed, or with \<open>None\<close>.
\<close>

definition Ingest ::
  "('d \<Rightarrow> nat \<Rightarrow> nat \<Rightarrow> 'c list) \<Rightarrow> ('c \<Rightarrow> nat \<Rightarrow> 'x option) \<Rightarrow> ('x list \<Rightarrow> 'g) \<Rightarrow>
   ('d \<Rightarrow> 'c list \<Rightarrow> 'g \<Rightarrow> string option) \<Rightarrow> IngestConfig \<Rightarrow> 'd \<Rightarrow> 'c ingest_error + unit" where
  "Ingest window llm merge write config doc =
     (case Split window doc (ChunkMaxTokenSize config) (OverlapTokens config) of
        Inl err \<Rightarrow> Inl err
      | Inr chunks \<Rightarrow>
          (case extract_all llm (MaxRetries config) chunks of
             Inl failing \<Rightarrow> Inl (ExtractionFailed failing)
           | Inr extracted \<Rightarrow>
               (case write doc chunks (merge extracted) of
                  Some name \<Rightarrow> Inl (StoreWriteFailed name)
                | None \<Rightarrow> Inr ())))"

section \<open>Theorems\<close>

subsection \<open>LoadConfig\<close>

text \<open>
  Claim C8. \<open>LoadConfig\<close> returns an error exactly when \<open>ACCESS_TOKEN\<close> is empty,
  \<open>ORGANIZATION_ID\<close> is empty, or \<open>ORGANIZATION_ID\<close> does not parse as a UUID; in every other
  case it returns the two environment values unchanged, with a nil error.
\<close>

theorem LoadConfig_error_iff:
  fixes uuid_Parse :: "string \<Rightarrow> 'e + 'u"
  shows "(snd (snd (LoadConfig uuid_Parse env)) \<noteq> None \<longleftrightarrow>
            Getenv env ''ACCESS_TOKEN'' = [] \<or> Getenv env ''ORGANIZATION_ID'' = [] \<or>
            isl (uuid_Parse (Getenv env ''ORGANIZATION_ID'')))
       \<and> (snd (snd (LoadConfig uuid_Parse env)) = None \<longrightarrow>
            LoadConfig uuid_Parse env =
              (Getenv env ''ACCESS_TOKEN'', Getenv env ''ORGANIZATION_ID'', None))"
  by (cases "uuid_Parse (Getenv env ''ORGANIZATION_ID'')")
     (simp_all add: LoadConfig_def Let_def)

text \<open>
  The theorem at a concrete environment, with a stand-in parser that accepts exactly the
  strings of 36 bytes: both variables are set, the identifier parses, and the two values
  come back.
\<close>

theorem LoadConfig_error_iff_witness:
  "LoadConfig (\<lambda>s. if length s = 36 then Inr s else Inl (length s))
     [''ACCESS_TOKEN'' \<mapsto> ''0.token'',
      ''ORGANIZATION_ID'' \<mapsto> ''123e4567-e89b-12d3-a456-426614174000'']
   = (''0.token'', ''123e4567-e89b-12d3-a456-426614174000'', None)"
  using LoadConfig_error_iff
    [of "\<lambda>s. if length s = 36 then Inr s else Inl (length s)"
        "[''ACCESS_TOKEN'' \<mapsto> ''0.token'',
          ''ORGANIZATION_ID'' \<mapsto> ''123e4567-e89b-12d3-a456-426614174000'']"]
  by (simp add: LoadConfig_def Getenv_def)

subsection \<open>SetEnvironmentVariables\<close>

lemma Setenv_settable:
  "Setenv (Key s) (Value s) env =
     (if settable s then Inr (env(Key s \<mapsto> Value s)) else Inl EINVAL)"
  by (simp add: Setenv_def settable_def)

lemma upd_then_bindings:
  "env(k \<mapsto> v) ++ map_of (rev ys) = env ++ map_of (rev ((k, v) # ys))"
proof -
  have "env ++ map_of (rev ((k, v) # ys)) = env ++ (map_of [(k, v)] ++ map_of (rev ys))"
    by (simp only: rev.simps map_of_append)
  also have "\<dots> = (env ++ map_of [(k, v)]) ++ map_of (rev ys)"
    by (simp only: map_add_assoc)
  also have "env ++ map_of [(k, v)] = env(k \<mapsto> v)"
    by simp
  finally show ?thesis by simp
qed

text \<open>
  The loop in closed form. Of the secrets with a non-empty key, those before the first one
  that \<open>os.Setenv\<close> refuses are bound, a later binding of a name overriding an earlier one;
  the error is that of the first refused secret, if there is one.
\<close>

lemma set_each_closed_form:
  "set_each xs env =
     (case dropWhile settable (filter (\<lambda>s. Key s \<noteq> []) xs) of
        [] \<Rightarrow> None
      | s # _ \<Rightarrow> Some (SetenvFailed (Key s) EINVAL),
      env ++ map_of (rev (map binding (takeWhile settable (filter (\<lambda>s. Key s \<noteq> []) xs)))))"
proof (induction xs arbitrary: env)
  case Nil
  then show ?case by simp
next
  case (Cons x xs)
  show ?case
  proof (cases "Key x = []")
    case True
    then show ?thesis using Cons.IH by simp
  next
    case live: False
    show ?thesis
    proof (cases "settable x")
      case True
      let ?F = "filter (\<lambda>s. Key s \<noteq> []) xs"
      from live True have step: "set_each (x # xs) env = set_each xs (env(Key x \<mapsto> Value x))"
        by (simp add: Setenv_settable)
      from live True have
        dw: "dropWhile settable (filter (\<lambda>s. Key s \<noteq> []) (x # xs)) = dropWhile settable ?F" and
        tw: "map binding (takeWhile settable (filter (\<lambda>s. Key s \<noteq> []) (x # xs))) =
               (Key x, Value x) # map binding (takeWhile settable ?F)"
        by (simp_all add: binding_def)
      show ?thesis
        unfolding step dw tw Cons.IH [of "env(Key x \<mapsto> Value x)"] upd_then_bindings ..
    next
      case False
      with live show ?thesis by (simp add: Setenv_settable)
    qed
  qed
qed

text \<open>
  Claim C9, as amended. Secrets with an empty key are skipped. The secrets with a non-empty
  key are set in order, up to the first one whose \<open>os.Setenv\<close> fails (a key holding \<open>=\<close> or
  NUL, a value holding NUL): that failure is returned and no later secret is set. When none
  fails the result is \<open>nil\<close>, and every variable named by such a secret holds the value of
  the last secret of that name.
\<close>

theorem SetEnvironmentVariables_outcome:
  "SetEnvironmentVariables (Some response) env =
     Some
      (case dropWhile settable (filter (\<lambda>s. Key s \<noteq> []) (Data response)) of
         [] \<Rightarrow> None
       | s # _ \<Rightarrow> Some (SetenvFailed (Key s) EINVAL),
       env ++
       map_of (rev (map binding
         (takeWhile settable (filter (\<lambda>s. Key s \<noteq> []) (Data response))))))"
  by (simp add: SetEnvironmentVariables_def set_each_closed_form)

text \<open>
  The theorem at a response of four secrets: the one with the empty key is skipped, the two
  values of \<open>API_KEY\<close> are set one after the other, and \<open>nil\<close> is returned.
\<close>

theorem SetEnvironmentVariables_outcome_witness:
  "SetEnvironmentVariables
     (Some \<lparr>Data = [\<lparr>Key = ''API_KEY'', Value = ''old''\<rparr>, \<lparr>Key = [], Value = ''skipped''\<rparr>,
                    \<lparr>Key = ''DB_URL'', Value = ''bolt://localhost''\<rparr>,
                    \<lparr>Key = ''API_KEY'', Value = ''new''\<rparr>]\<rparr>)
     [''HOME'' \<mapsto> ''/root'']
   = Some (None,
       [''HOME'' \<mapsto> ''/root''] ++
       map_of [(''API_KEY'', ''new''), (''DB_URL'', ''bolt://localhost''), (''API_KEY'', ''old'')])"
  using SetEnvironmentVariables_outcome
    [of "\<lparr>Data = [\<lparr>Key = ''API_KEY'', Value = ''old''\<rparr>, \<lparr>Key = [], Value = ''skipped''\<rparr>,
                   \<lparr>Key = ''DB_URL'', Value = ''bolt://localhost''\<rparr>,
                   \<lparr>Key = ''API_KEY'', Value = ''new''\<rparr>]\<rparr>"
        "[''HOME'' \<mapsto> ''/root'']"]
  by (simp add: settable_def binding_def)

text \<open>
  Claim C9 as first stated promises a set operation for every secret with a non-empty key.
  At this response the key of the first secret holds \<open>=\<close>: \<open>os.Setenv\<close> refuses it, the
  function returns that error, and the second secret, whose key \<open>C\<close> is not empty, is never
  set: the environment is still empty.
\<close>

theorem SetEnvironmentVariables_stops_counterexample:
  "SetEnvironmentVariables
     (Some \<lparr>Data = [\<lparr>Key = ''A=B'', Value = ''x''\<rparr>, \<lparr>Key = ''C'', Value = ''y''\<rparr>]\<rparr>) Map.empty
   = Some (Some (SetenvFailed ''A=B'' EINVAL), Map.empty)"
  by (simp add: SetEnvironmentVariables_def Setenv_def)

subsection \<open>The build helper\<close>

text \<open>An element without a separator that is neither \<open>.\<close> nor \<open>..\<close> is copied as it is.\<close>

lemma clean_loop_element:
  assumes "\<not> IsPathSeparator c" and "c \<noteq> CHR ''.''"
    and "\<forall>x \<in> set cs. \<not> IsPathSeparator x" and "out \<noteq> []"
  shows "clean_loop False (c # cs) out dotdot = out @ Separator # c # cs"
proof -
  have tw: "takeWhile (\<lambda>x. \<not> IsPathSeparator x) (c # cs) = c # cs"
    using assms(1,3) by simp
  have dw: "dropWhile (\<lambda>x. \<not> IsPathSeparator x) (c # cs) = []"
    using assms(1,3) by simp
  show ?thesis
    by (subst clean_loop.simps(2)) (simp only: assms tw dw Let_def, simp add: assms(4))
qed

lemma Join_binDir:
  assumes "Separator \<notin> set goos" and "Separator \<notin> set goarch"
  shows "Join [binDir, binaryName @ ''_'' @ goos @ ''_'' @ goarch] =
           ''.builds/lrag_'' @ goos @ ''_'' @ goarch"
proof -
  let ?rest = "''rag_'' @ goos @ ''_'' @ goarch"
  have free: "\<forall>x \<in> set ?rest. \<not> IsPathSeparator x"
    using assms by (auto simp: IsPathSeparator_def Separator_def)
  have dir: "clean_loop False (''.builds/l'' @ ?rest) [] 0 =
               clean_loop False (CHR ''l'' # ?rest) ''.builds'' 0"
    by (simp add: IsPathSeparator_def Separator_def)
  have name: "clean_loop False (CHR ''l'' # ?rest) ''.builds'' 0 =
                ''.builds'' @ Separator # CHR ''l'' # ?rest"
    by (rule clean_loop_element [OF _ _ free]) (simp_all add: IsPathSeparator_def Separator_def)
  show ?thesis
    using dir name
    by (simp add: Join_def Clean_def binDir_def binaryName_def IsPathSeparator_def Separator_def)
qed

text \<open>
  Claim C10. For every GOOS/GOARCH pair (names of platforms: they hold no path separator),
  once the output directory exists the helper runs \<open>go build\<close> with the output path
  \<open>.builds/lrag_<GOOS>_<GOARCH>\<close>, to which \<open>.exe\<close> is appended exactly when GOOS is
  \<open>windows\<close>, with GOOS, GOARCH and CGO_ENABLED=0 in the environment; when the directory
  cannot be created it runs nothing and returns that error.
\<close>

theorem build_output_path:
  assumes "Separator \<notin> set goos" and "Separator \<notin> set goarch"
  shows "(os_MkdirAll ''.builds'' 493 = None \<longrightarrow>
            take 2 (snd (build os_MkdirAll sh_RunWith goos goarch)) =
              [MkdirAll ''.builds'' 493,
               RunWith [''GOOS'' \<mapsto> goos, ''GOARCH'' \<mapsto> goarch, ''CGO_ENABLED'' \<mapsto> ''0''] ''go''
                 [''build'', ''-ldflags=-s -w'', ''-o'',
                  ''.builds/lrag_'' @ goos @ ''_'' @ goarch @
                    (if goos = ''windows'' then ''.exe'' else []),
                  ''./cmd/cli'']])
       \<and> (\<forall>err. os_MkdirAll ''.builds'' 493 = Some err \<longrightarrow>
            build os_MkdirAll sh_RunWith goos goarch =
              (Some (MkdirFailed err), [MkdirAll ''.builds'' 493]))"
proof -
  have made: "take 2 (snd (build os_MkdirAll sh_RunWith goos goarch)) =
      [MkdirAll ''.builds'' 493,
       RunWith [''GOOS'' \<mapsto> goos, ''GOARCH'' \<mapsto> goarch, ''CGO_ENABLED'' \<mapsto> ''0''] ''go''
         [''build'', ''-ldflags=-s -w'', ''-o'',
          ''.builds/lrag_'' @ goos @ ''_'' @ goarch @ (if goos = ''windows'' then ''.exe'' else []),
          ''./cmd/cli'']]"
    if "os_MkdirAll ''.builds'' 493 = None"
    using that Join_binDir [OF assms]
    by (simp add: build_def Let_def binDir_def goFiles_def split: option.split)
  have refused: "build os_MkdirAll sh_RunWith goos goarch =
      (Some (MkdirFailed err), [MkdirAll ''.builds'' 493])"
    if "os_MkdirAll ''.builds'' 493 = Some err" for err
    using that by (simp add: build_def binDir_def)
  from made refused show ?thesis by blast
qed

text \<open>
  The theorem at the targets \<open>Build.Windows\<close> and \<open>Build.Linux\<close>, with a directory that can
  be created.
\<close>

theorem build_output_path_witness:
  "Separator \<notin> set ''windows'' \<and> Separator \<notin> set ''linux'' \<and> Separator \<notin> set ''amd64''
   \<and> take 2 (snd (build (\<lambda>path mode. None :: string option) (\<lambda>env cmd args. None)
                     ''windows'' ''amd64'')) =
       [MkdirAll ''.builds'' 493,
        RunWith [''GOOS'' \<mapsto> ''windows'', ''GOARCH'' \<mapsto> ''amd64'', ''CGO_ENABLED'' \<mapsto> ''0''] ''go''
          [''build'', ''-ldflags=-s -w'', ''-o'', ''.builds/lrag_windows_amd64.exe'', ''./cmd/cli'']]
   \<and> take 2 (snd (build (\<lambda>path mode. None :: string option) (\<lambda>env cmd args. None)
                     ''linux'' ''amd64'')) =
       [MkdirAll ''.builds'' 493,
        RunWith [''GOOS'' \<mapsto> ''linux'', ''GOARCH'' \<mapsto> ''amd64'', ''CGO_ENABLED'' \<mapsto> ''0''] ''go''
          [''build'', ''-ldflags=-s -w'', ''-o'', ''.builds/lrag_linux_amd64'', ''./cmd/cli'']]"
proof -
  have w: "Separator \<notin> set ''windows''" and l: "Separator \<notin> set ''linux''"
    and a: "Separator \<notin> set ''amd64''"
    by (simp_all add: Separator_def)
  show ?thesis
    using w l a
      build_output_path [OF w a, of "\<lambda>path mode. None :: string option" "\<lambda>env cmd args. None"]
      build_output_path [OF l a, of "\<lambda>path mode. None :: string option" "\<lambda>env cmd args. None"]
    by simp
qed

subsection \<open>The composed store\<close>












subsection \<open>The handler configuration\<close>

text \<open>
  Claim C5, as amended. The configuration that \<open>main\<close> hands to the core supplies five
  settings explicitly: ChunkMaxTokenSize, EntityTypes, MaxRetries, BackoffDuration and
  ConcurrencyCount. It supplies no overlap setting.
\<close>

theorem main_h_supplied:
  "supplied main_h =
     [''ChunkMaxTokenSize'', ''EntityTypes'', ''MaxRetries'', ''BackoffDuration'',
      ''ConcurrencyCount'']
   \<and> ''OverlapTokens'' \<notin> set (supplied main_h)"
  by (simp add: supplied_def main_h_def)

text \<open>
  Claim C5 as first stated wants all six settings supplied explicitly by every
  configuration; the one configuration of the program leaves \<open>OverlapTokens\<close> out.
\<close>

theorem main_h_overlap_counterexample:
  "\<not> set [''ChunkMaxTokenSize'', ''OverlapTokens'', ''EntityTypes'', ''MaxRetries'',
          ''BackoffDuration'', ''ConcurrencyCount''] \<subseteq> set (supplied main_h)"
  by (simp add: supplied_def main_h_def)

subsection \<open>The ingestion orchestrator\<close>

lemma retry_succeeds:
  assumes "\<forall>j. k \<le> j \<and> j < n \<longrightarrow> attempt j = None" and "attempt n = Some x" and "k \<le> n"
  shows "extract_with_retry attempt n k = Some x"
  using assms
proof (induction attempt n k rule: extract_with_retry.induct)
  case (1 attempt maxRetries k)
  show ?case
  proof (cases "k < maxRetries")
    case True
    with 1 show ?thesis by (subst extract_with_retry.simps) simp
  next
    case False
    with 1 have "k = maxRetries" by simp
    with 1 show ?thesis by (subst extract_with_retry.simps) simp
  qed
qed

lemma retry_exhausted:
  assumes "\<forall>j. k \<le> j \<and> j \<le> n \<longrightarrow> attempt j = None" and "k \<le> n"
  shows "extract_with_retry attempt n k = None"
  using assms
proof (induction attempt n k rule: extract_with_retry.induct)
  case (1 attempt maxRetries k)
  show ?case
  proof (cases "k < maxRetries")
    case True
    with 1 show ?thesis by (subst extract_with_retry.simps) simp
  next
    case False
    with 1 show ?thesis by (subst extract_with_retry.simps) simp
  qed
qed

lemma those_map_Some:
  assumes "\<forall>c \<in> set cs. f c \<noteq> None"
  shows "\<exists>xs. those (map f cs) = Some xs"
  using assms by (induction cs) auto

lemma those_map_None:
  assumes "c \<in> set cs" and "f c = None"
  shows "those (map f cs) = None"
  using assms by (induction cs) (auto split: option.splits)

lemma extract_all_succeeds:
  assumes "\<forall>c \<in> set cs. (\<forall>k < n. llm c k = None) \<and> llm c n \<noteq> None"
  shows "\<exists>xs. extract_all llm n cs = Inr xs"
proof -
  have "extract_with_retry (llm c) n 0 \<noteq> None" if "c \<in> set cs" for c
  proof -
    from assms that obtain x where "\<forall>k < n. llm c k = None" and "llm c n = Some x"
      by blast
    then have "extract_with_retry (llm c) n 0 = Some x"
      by (intro retry_succeeds) simp_all
    then show ?thesis by simp
  qed
  then obtain xs where "those (map (\<lambda>c. extract_with_retry (llm c) n 0) cs) = Some xs"
    using those_map_Some [of cs "\<lambda>c. extract_with_retry (llm c) n 0"] by blast
  then show ?thesis by (simp add: extract_all_def)
qed

lemma extract_all_fails:
  assumes "c \<in> set cs" and "\<forall>k \<le> n. llm c k = None"
  shows "\<exists>failing. c \<in> set failing \<and> extract_all llm n cs = Inl failing"
proof -
  from assms(2) have none: "extract_with_retry (llm c) n 0 = None"
    by (intro retry_exhausted) simp_all
  with assms(1) have "those (map (\<lambda>c. extract_with_retry (llm c) n 0) cs) = None"
    by (intro those_map_None [of c]) simp_all
  with none assms(1) show ?thesis by (simp add: extract_all_def)
qed

text \<open>
  Claim C1. With a valid chunking configuration: if for every chunk of the document the
  LLM collaborator fails \<open>MaxRetries\<close> times and then succeeds, and the store writes
  succeed, \<open>Ingest\<close> succeeds; if for some chunk it fails \<open>MaxRetries + 1\<close> times, \<open>Ingest\<close>
  returns \<open>ExtractionFailed\<close>, naming that chunk. The configuration of the demo program
  sets \<open>MaxRetries\<close> to 5.
\<close>

theorem Ingest_retry_bound:
  assumes "OverlapTokens config < ChunkMaxTokenSize config"
  shows "((\<forall>c \<in> set (window doc (ChunkMaxTokenSize config) (OverlapTokens config)).
             (\<forall>k < MaxRetries config. llm c k = None) \<and> llm c (MaxRetries config) \<noteq> None) \<and>
          (\<forall>chunks merged. write doc chunks merged = None) \<longrightarrow>
            Ingest window llm merge write config doc = Inr ())
       \<and> (\<forall>c \<in> set (window doc (ChunkMaxTokenSize config) (OverlapTokens config)).
            (\<forall>k \<le> MaxRetries config. llm c k = None) \<longrightarrow>
            (\<exists>failing. c \<in> set failing \<and>
               Ingest window llm merge write config doc = Inl (ExtractionFailed failing)))
       \<and> Config_MaxRetries main_h = 5"
proof -
  let ?cs = "window doc (ChunkMaxTokenSize config) (OverlapTokens config)"
  from assms
  have split: "Split window doc (ChunkMaxTokenSize config) (OverlapTokens config) = Inr ?cs"
    by (simp add: Split_def)
  have ok: "Ingest window llm merge write config doc = Inr ()"
    if "\<forall>c \<in> set ?cs. (\<forall>k < MaxRetries config. llm c k = None) \<and> llm c (MaxRetries config) \<noteq> None"
      and "\<forall>chunks merged. write doc chunks merged = None"
  proof -
    from that(1) have "\<exists>xs. extract_all llm (MaxRetries config) ?cs = Inr xs"
      by (rule extract_all_succeeds)
    then obtain xs where "extract_all llm (MaxRetries config) ?cs = Inr xs" ..
    with split that(2) show ?thesis by (simp add: Ingest_def)
  qed
  have failed: "\<exists>failing. c \<in> set failing \<and>
      Ingest window llm merge write config doc = Inl (ExtractionFailed failing)"
    if "c \<in> set ?cs" and "\<forall>k \<le> MaxRetries config. llm c k = None" for c
  proof -
    from that
    have "\<exists>failing. c \<in> set failing \<and> extract_all llm (MaxRetries config) ?cs = Inl failing"
      by (rule extract_all_fails)
    then obtain failing
      where "c \<in> set failing" and "extract_all llm (MaxRetries config) ?cs = Inl failing"
      by blast
    with split show ?thesis by (simp add: Ingest_def)
  qed
  have "Config_MaxRetries main_h = 5"
    by (simp add: Config_MaxRetries_def main_h_def)
  with ok failed show ?thesis by blast
qed

text \<open>
  The theorem at the configuration of the demo program, with an overlap of 0, a document
  of one chunk, and stores that accept every write: an LLM that fails five times and then
  answers lets \<open>Ingest\<close> succeed, and one that fails six times makes it return
  \<open>ExtractionFailed\<close>.
\<close>

theorem Ingest_retry_bound_witness:
  "Ingest (\<lambda>doc maxTokens overlapTokens. [doc])
     (\<lambda>chunk k. if k < 5 then None else Some ''Neo4j'') (\<lambda>extracted. extracted)
     (\<lambda>doc chunks merged. None)
     \<lparr>ChunkMaxTokenSize = 1500, OverlapTokens = 0, EntityTypes = [''object''], MaxRetries = 5,
      BackoffDuration = 3000000000, ConcurrencyCount = 5\<rparr> ''doc-1'' = Inr ()
   \<and> (\<exists>failing. ''doc-1'' \<in> set failing \<and>
        Ingest (\<lambda>doc maxTokens overlapTokens. [doc])
          (\<lambda>chunk k. if k < 6 then None else Some ''Neo4j'') (\<lambda>extracted. extracted)
          (\<lambda>doc chunks merged. None)
          \<lparr>ChunkMaxTokenSize = 1500, OverlapTokens = 0, EntityTypes = [''object''],
           MaxRetries = 5, BackoffDuration = 3000000000, ConcurrencyCount = 5\<rparr> ''doc-1'' =
        Inl (ExtractionFailed failing))"
proof -
  let ?config = "\<lparr>ChunkMaxTokenSize = 1500, OverlapTokens = 0, EntityTypes = [''object''],
    MaxRetries = 5, BackoffDuration = 3000000000, ConcurrencyCount = 5\<rparr>"
  have valid: "OverlapTokens ?config < ChunkMaxTokenSize ?config"
    by simp
  from Ingest_retry_bound [of ?config "\<lambda>doc maxTokens overlapTokens. [doc]" "''doc-1''"
      "\<lambda>chunk k. if k < 5 then None else Some ''Neo4j''" "\<lambda>doc chunks merged. None"
      "\<lambda>extracted. extracted", OF valid]
  have succeeds: "Ingest (\<lambda>doc maxTokens overlapTokens. [doc])
     (\<lambda>chunk k. if k < 5 then None else Some ''Neo4j'') (\<lambda>extracted. extracted)
     (\<lambda>doc chunks merged. None) ?config ''doc-1'' = Inr ()"
    by simp
  from Ingest_retry_bound [of ?config "\<lambda>doc maxTokens overlapTokens. [doc]" "''doc-1''"
      "\<lambda>chunk k. if k < 6 then None else Some ''Neo4j''" "\<lambda>doc chunks merged. None"
      "\<lambda>extracted. extracted", OF valid]
  have fails: "\<exists>failing. ''doc-1'' \<in> set failing \<and>
        Ingest (\<lambda>doc maxTokens overlapTokens. [doc])
          (\<lambda>chunk k. if k < 6 then None else Some ''Neo4j'') (\<lambda>extracted. extracted)
          (\<lambda>doc chunks merged. None) ?config ''doc-1'' = Inl (ExtractionFailed failing)"
    by simp
  from succeeds fails show ?thesis by blast
qed

end
